theory Spec2Isabelle
  imports Main "HOL-Library.Char_ord"
begin

section \<open>The schema layer of app/models.py\<close>

text \<open>
  \<^verbatim>\<open>app/models.py\<close> is declarative: three string enumerations, eight persistent
  SQLModel classes (\<^verbatim>\<open>table=True\<close>) and nine non-persistent ones
  (\<^verbatim>\<open>table=False\<close>). Each class is embedded as the table of its field declarations,
  one entry per annotated attribute, in the order of the class body, with the keyword
  arguments of its \<^verbatim>\<open>Field(...)\<close> call. What a class does when it is instantiated is
  what SQLModel does with such a table; that behaviour is embedded once, as functions
  over the tables (\<open>model_validate\<close>, \<open>sqlmodel_table_construct\<close>, \<open>sqlmodel_init\<close>).
\<close>

subsection \<open>Enumerations\<close>

datatype ReportType = INDUSTRY | COMPANY

datatype UserRole = ADMIN | OFFICIAL | VIEWER

datatype InteractionType = QUESTION | SUMMARY | ANALYSIS

datatype enum_member =
    ReportType_member ReportType
  | UserRole_member UserRole
  | InteractionType_member InteractionType

datatype enum_cls = ReportType_cls | UserRole_cls | InteractionType_cls

text \<open>The value of a member: the string on the right of its assignment.\<close>

fun enum_value :: "enum_member \<Rightarrow> string" where
  "enum_value (ReportType_member INDUSTRY) = ''industry''"
| "enum_value (ReportType_member COMPANY) = ''company''"
| "enum_value (UserRole_member ADMIN) = ''admin''"
| "enum_value (UserRole_member OFFICIAL) = ''official''"
| "enum_value (UserRole_member VIEWER) = ''viewer''"
| "enum_value (InteractionType_member QUESTION) = ''question''"
| "enum_value (InteractionType_member SUMMARY) = ''summary''"
| "enum_value (InteractionType_member ANALYSIS) = ''analysis''"

text \<open>The members of a class, in definition order.\<close>

fun enum_members :: "enum_cls \<Rightarrow> enum_member list" where
  "enum_members ReportType_cls = [ReportType_member INDUSTRY, ReportType_member COMPANY]"
| "enum_members UserRole_cls =
     [UserRole_member ADMIN, UserRole_member OFFICIAL, UserRole_member VIEWER]"
| "enum_members InteractionType_cls =
     [InteractionType_member QUESTION, InteractionType_member SUMMARY,
      InteractionType_member ANALYSIS]"

text \<open>\<^verbatim>\<open>Cls(value)\<close>: the member of the class with that value, if any.\<close>

definition enum_lookup :: "enum_cls \<Rightarrow> string \<Rightarrow> enum_member option" where
  "enum_lookup c s = find (\<lambda>m. enum_value m = s) (enum_members c)"

subsection \<open>Python values\<close>

text \<open>
  The values that keyword arguments and attributes hold. A string is a list of
  characters, one \<open>char\<close> per code point (the model covers code points below 256). A
  \<^verbatim>\<open>Decimal\<close> is what \<^verbatim>\<open>as_tuple()\<close> returns for a finite number: sign, digits and
  exponent. A \<^verbatim>\<open>datetime\<close> is a point on a time line. A member of one of the three
  enumerations is a value of its own, although in Python it is also a \<^verbatim>\<open>str\<close>.
\<close>

datatype pyval =
    VNone
  | VBool bool
  | VInt int
  | VStr string
  | VDecimal bool "nat list" int
  | VDatetime int
  | VEnum enum_member
  | VList "pyval list"
  | VDict "(string \<times> pyval) list"

subsection \<open>Patterns\<close>

text \<open>
  The regular expressions that a \<^verbatim>\<open>regex=\<close> argument can hold, as far as this file
  needs them: characters, character sets given by ranges, sequence, alternative and
  repetition. The anchors \<^verbatim>\<open>^\<close> and \<^verbatim>\<open>$\<close> of the source pattern are the whole-string
  match of \<open>re_match\<close>: \<^verbatim>\<open>$\<close> is the end of the string and nothing else (a newline at
  the end is not skipped).
\<close>

datatype regex =
    Nothing
  | Empty
  | Chr char
  | CharSet "(char \<times> char) list"
  | Alt regex regex
  | Seq regex regex
  | Star regex

abbreviation Plus :: "regex \<Rightarrow> regex" where
  "Plus r \<equiv> Seq r (Star r)"

definition in_charset :: "(char \<times> char) list \<Rightarrow> char \<Rightarrow> bool" where
  "in_charset rs c = list_ex (\<lambda>(lo, hi). lo \<le> c \<and> c \<le> hi) rs"

fun nullable :: "regex \<Rightarrow> bool" where
  "nullable Nothing = False"
| "nullable Empty = True"
| "nullable (Chr c) = False"
| "nullable (CharSet rs) = False"
| "nullable (Alt r s) = (nullable r \<or> nullable s)"
| "nullable (Seq r s) = (nullable r \<and> nullable s)"
| "nullable (Star r) = True"

text \<open>What is left of a pattern after it has read the character \<open>c\<close>.\<close>

fun after :: "char \<Rightarrow> regex \<Rightarrow> regex" where
  "after c Nothing = Nothing"
| "after c Empty = Nothing"
| "after c (Chr d) = (if c = d then Empty else Nothing)"
| "after c (CharSet rs) = (if in_charset rs c then Empty else Nothing)"
| "after c (Alt r s) = Alt (after c r) (after c s)"
| "after c (Seq r s) =
     (if nullable r then Alt (Seq (after c r) s) (after c s) else Seq (after c r) s)"
| "after c (Star r) = Seq (after c r) (Star r)"

fun re_match :: "regex \<Rightarrow> string \<Rightarrow> bool" where
  "re_match r [] = nullable r"
| "re_match r (c # cs) = re_match (after c r) cs"

text \<open>The strings a pattern stands for, to say what \<open>re_match\<close> decides.\<close>

inductive in_lang :: "regex \<Rightarrow> string \<Rightarrow> bool" where
  in_Empty: "in_lang Empty []"
| in_Chr: "in_lang (Chr c) [c]"
| in_CharSet: "in_charset rs c \<Longrightarrow> in_lang (CharSet rs) [c]"
| in_AltL: "in_lang r w \<Longrightarrow> in_lang (Alt r s) w"
| in_AltR: "in_lang s w \<Longrightarrow> in_lang (Alt r s) w"
| in_Seq: "in_lang r u \<Longrightarrow> in_lang s v \<Longrightarrow> in_lang (Seq r s) (u @ v)"
| in_StarNil: "in_lang (Star r) []"
| in_StarCons: "in_lang r u \<Longrightarrow> in_lang (Star r) v \<Longrightarrow> in_lang (Star r) (u @ v)"

subsection \<open>Field declarations\<close>

text \<open>The annotation of an attribute.\<close>

datatype ftype =
    PyStr
  | PyInt
  | PyBool
  | PyDatetime
  | PyDecimal
  | PyEnum enum_cls
  | PyList ftype
  | PyDict
  | PyOptional ftype

text \<open>
  The keyword arguments of \<^verbatim>\<open>Field(...)\<close> that the file uses. \<open>Default v\<close> is also the
  plain assignment \<^verbatim>\<open>attr: T = v\<close>. The only default factory of the file is
  \<^verbatim>\<open>datetime.utcnow\<close>; the only \<^verbatim>\<open>sa_column\<close> is \<^verbatim>\<open>Column(JSON)\<close>. \<open>Regex r\<close> is
  the pattern a string must match, \<^verbatim>\<open>regex=\<close> in the source.
\<close>

datatype field_arg =
    Default pyval
  | Default_factory_utcnow
  | Primary_key bool
  | Unique bool
  | Foreign_key string
  | Max_length nat
  | Min_length nat
  | Regex regex
  | Ge int
  | Le int
  | Decimal_places nat
  | Max_digits nat
  | Sa_column_JSON

type_synonym field = "string \<times> ftype \<times> field_arg list"

record model =
  class_name :: string
  table :: bool
  tablename :: "string option"
  model_fields :: "field list"
  relationships :: "string list"

primrec first_some :: "('a \<Rightarrow> 'b option) \<Rightarrow> 'a list \<Rightarrow> 'b option" where
  "first_some f [] = None"
| "first_some f (x # xs) = (case f x of Some y \<Rightarrow> Some y | None \<Rightarrow> first_some f xs)"

definition get_max_length :: "field_arg list \<Rightarrow> nat option" where
  "get_max_length = first_some (\<lambda>a. case a of Max_length n \<Rightarrow> Some n | _ \<Rightarrow> None)"

definition get_min_length :: "field_arg list \<Rightarrow> nat option" where
  "get_min_length = first_some (\<lambda>a. case a of Min_length n \<Rightarrow> Some n | _ \<Rightarrow> None)"

definition get_regex :: "field_arg list \<Rightarrow> regex option" where
  "get_regex = first_some (\<lambda>a. case a of Regex r \<Rightarrow> Some r | _ \<Rightarrow> None)"

definition get_ge :: "field_arg list \<Rightarrow> int option" where
  "get_ge = first_some (\<lambda>a. case a of Ge n \<Rightarrow> Some n | _ \<Rightarrow> None)"

definition get_le :: "field_arg list \<Rightarrow> int option" where
  "get_le = first_some (\<lambda>a. case a of Le n \<Rightarrow> Some n | _ \<Rightarrow> None)"

definition get_decimal_places :: "field_arg list \<Rightarrow> nat option" where
  "get_decimal_places = first_some (\<lambda>a. case a of Decimal_places n \<Rightarrow> Some n | _ \<Rightarrow> None)"

definition get_max_digits :: "field_arg list \<Rightarrow> nat option" where
  "get_max_digits = first_some (\<lambda>a. case a of Max_digits n \<Rightarrow> Some n | _ \<Rightarrow> None)"


text \<open>
  The default of a field when the argument is omitted: the declared value, or the
  clock's reading for the factory; \<open>None\<close> when the field declares neither, which makes
  it required.
\<close>

definition get_default :: "int \<Rightarrow> field_arg list \<Rightarrow> pyval option" where
  "get_default now =
     first_some (\<lambda>a. case a of Default v \<Rightarrow> Some v
                              | Default_factory_utcnow \<Rightarrow> Some (VDatetime now)
                              | _ \<Rightarrow> None)"

definition is_required :: "field \<Rightarrow> bool" where
  "is_required f = (case f of (n, t, args) \<Rightarrow> get_default 0 args = None)"

subsection \<open>Validation\<close>

text \<open>
  The kinds of error a field can have, under the names Pydantic gives them. A failed
  validation raises one \<^verbatim>\<open>ValidationError\<close> that lists every field in error.
\<close>

datatype error_type =
    missing
  | string_type
  | string_too_short
  | string_too_long
  | string_pattern_mismatch
  | int_type
  | greater_than_equal
  | less_than_equal
  | bool_type
  | datetime_type
  | decimal_type
  | decimal_max_digits
  | decimal_max_places
  | decimal_whole_digits
  | enum_type
  | list_type
  | too_short
  | too_long
  | dict_type

datatype error = ValidationError "(string \<times> error_type) list"

type_synonym kwargs = "string \<rightharpoonup> pyval"

text \<open>
  An instance: its attributes and their values, listed in the order of the class's
  fields. The order carries no meaning; an attribute is read by name.
\<close>

type_synonym pyobject = "(string \<times> pyval) list"

definition getattr :: "pyobject \<Rightarrow> string \<Rightarrow> pyval option" where
  "getattr inst n = map_of inst n"

definition check_str :: "field_arg list \<Rightarrow> string \<Rightarrow> error_type + pyval" where
  "check_str args s =
     (if (case get_min_length args of Some n \<Rightarrow> length s < n | None \<Rightarrow> False)
        then Inl string_too_short
      else if (case get_max_length args of Some n \<Rightarrow> n < length s | None \<Rightarrow> False)
        then Inl string_too_long
      else if (case get_regex args of Some r \<Rightarrow> \<not> re_match r s | None \<Rightarrow> False)
        then Inl string_pattern_mismatch
      else Inr (VStr s))"

definition check_int :: "field_arg list \<Rightarrow> int \<Rightarrow> error_type + pyval" where
  "check_int args i =
     (if (case get_le args of Some n \<Rightarrow> n < i | None \<Rightarrow> False)
        then Inl less_than_equal
      else if (case get_ge args of Some n \<Rightarrow> i < n | None \<Rightarrow> False)
        then Inl greater_than_equal
      else Inr (VInt i))"

text \<open>
  The digit count of a decimal: with a non-negative exponent the digits are followed by
  that many zeros and there are no decimal places; with a negative one the places are
  its absolute value, and the digits at least as many.
\<close>

definition check_decimal ::
  "field_arg list \<Rightarrow> bool \<Rightarrow> nat list \<Rightarrow> int \<Rightarrow> error_type + pyval" where
  "check_decimal args sg ds e =
     (let digits = (if 0 \<le> e then length ds + nat e else max (length ds) (nat (- e)));
          decimals = (if 0 \<le> e then 0 else nat (- e));
          whole = digits - decimals
      in if (case get_max_digits args of Some m \<Rightarrow> m < digits | None \<Rightarrow> False)
           then Inl decimal_max_digits
         else if (case get_decimal_places args of Some p \<Rightarrow> p < decimals | None \<Rightarrow> False)
           then Inl decimal_max_places
         else if (case (get_max_digits args, get_decimal_places args) of
                    (Some m, Some p) \<Rightarrow> m - p < whole | _ \<Rightarrow> False)
           then Inl decimal_whole_digits
         else Inr (VDecimal sg ds e))"

text \<open>
  An enumeration accepts a member of the class and a string that is the value of one;
  the validated value is the member. A member of the file's enumerations is a
  \<^verbatim>\<open>str\<close> equal to its value, so it is looked up by value too.
\<close>

definition check_enum :: "enum_cls \<Rightarrow> pyval \<Rightarrow> error_type + pyval" where
  "check_enum c v =
     (case (case v of VEnum m \<Rightarrow> enum_lookup c (enum_value m)
                    | VStr s \<Rightarrow> enum_lookup c s
                    | _ \<Rightarrow> None) of
        Some m \<Rightarrow> Inr (VEnum m)
      | None \<Rightarrow> Inl enum_type)"

text \<open>The items of a list are validated in order; the first error is the list's.\<close>

primrec collect :: "(error_type + pyval) list \<Rightarrow> error_type + pyval list" where
  "collect [] = Inr []"
| "collect (r # rs) =
     (case r of Inl e \<Rightarrow> Inl e
      | Inr v \<Rightarrow> (case collect rs of Inl e \<Rightarrow> Inl e | Inr vs \<Rightarrow> Inr (v # vs)))"

definition check_list :: "field_arg list \<Rightarrow> (error_type + pyval) list \<Rightarrow> error_type + pyval" where
  "check_list args rs =
     (case collect rs of
        Inl e \<Rightarrow> Inl e
      | Inr vs \<Rightarrow>
          (if (case get_min_length args of Some n \<Rightarrow> length vs < n | None \<Rightarrow> False)
             then Inl too_short
           else if (case get_max_length args of Some n \<Rightarrow> n < length vs | None \<Rightarrow> False)
             then Inl too_long
           else Inr (VList vs)))"

text \<open>
  A value against an annotation and the constraints of the field. A value of another
  Python class than the annotation's is a type error: the conversions that Pydantic's
  lax mode would try between classes (the string \<^verbatim>\<open>"20"\<close> for an \<^verbatim>\<open>int\<close>) are not
  part of the model.
\<close>

fun validate_type :: "ftype \<Rightarrow> field_arg list \<Rightarrow> pyval \<Rightarrow> error_type + pyval" where
  "validate_type PyStr args v = (case v of VStr s \<Rightarrow> check_str args s | _ \<Rightarrow> Inl string_type)"
| "validate_type PyInt args v = (case v of VInt i \<Rightarrow> check_int args i | _ \<Rightarrow> Inl int_type)"
| "validate_type PyBool args v = (case v of VBool b \<Rightarrow> Inr (VBool b) | _ \<Rightarrow> Inl bool_type)"
| "validate_type PyDatetime args v =
     (case v of VDatetime t \<Rightarrow> Inr (VDatetime t) | _ \<Rightarrow> Inl datetime_type)"
| "validate_type PyDecimal args v =
     (case v of VDecimal sg ds e \<Rightarrow> check_decimal args sg ds e | _ \<Rightarrow> Inl decimal_type)"
| "validate_type (PyEnum c) args v = check_enum c v"
| "validate_type (PyList t) args v =
     (case v of VList xs \<Rightarrow> check_list args (map (validate_type t []) xs) | _ \<Rightarrow> Inl list_type)"
| "validate_type PyDict args v = (case v of VDict kvs \<Rightarrow> Inr (VDict kvs) | _ \<Rightarrow> Inl dict_type)"
| "validate_type (PyOptional t) args v =
     (if v = VNone then Inr VNone else validate_type t args v)"

text \<open>
  One field: an omitted argument takes the default, which is not validated, and is an
  error when the field has none; a given argument is validated.
\<close>

definition validate_field :: "int \<Rightarrow> field \<Rightarrow> pyval option \<Rightarrow> error_type + pyval" where
  "validate_field now f arg =
     (case f of (n, t, args) \<Rightarrow>
        (case arg of
           None \<Rightarrow> (case get_default now args of Some d \<Rightarrow> Inr d | None \<Rightarrow> Inl missing)
         | Some v \<Rightarrow> validate_type t args v))"

text \<open>All fields, in order: the errors found and the attributes validated.\<close>

fun validate_fields ::
  "int \<Rightarrow> kwargs \<Rightarrow> field list \<Rightarrow> (string \<times> error_type) list \<times> pyobject" where
  "validate_fields now kw [] = ([], [])"
| "validate_fields now kw ((n, t, args) # fs) =
     (case validate_fields now kw fs of (errs, inst) \<Rightarrow>
        (case validate_field now (n, t, args) (kw n) of
           Inl e \<Rightarrow> ((n, e) # errs, inst)
         | Inr v \<Rightarrow> (errs, (n, v) # inst)))"

text \<open>
  \<^verbatim>\<open>Cls.model_validate(data)\<close>: the data validated against the fields of the class,
  for a table class as for any other. \<open>now\<close> is what \<^verbatim>\<open>datetime.utcnow()\<close> returns
  during the call. Keys of the data that name no field are ignored.
\<close>

definition model_validate :: "model \<Rightarrow> int \<Rightarrow> kwargs \<Rightarrow> error + pyobject" where
  "model_validate m now kw =
     (case validate_fields now kw (model_fields m) of
        (errs, inst) \<Rightarrow> if errs = [] then Inr inst else Inl (ValidationError errs))"

text \<open>
  What SQLModel does instead for a class with \<^verbatim>\<open>table=True\<close> when it is instantiated:
  every given argument that names a field is stored as it is, every omitted field that
  has a default takes it, and an omitted field without one stays unset. Nothing is
  validated and no error is raised.
\<close>

fun sqlmodel_table_construct :: "int \<Rightarrow> kwargs \<Rightarrow> field list \<Rightarrow> pyobject" where
  "sqlmodel_table_construct now kw [] = []"
| "sqlmodel_table_construct now kw ((n, t, args) # fs) =
     (case kw n of
        Some v \<Rightarrow> (n, v) # sqlmodel_table_construct now kw fs
      | None \<Rightarrow>
          (case get_default now args of
             Some d \<Rightarrow> (n, d) # sqlmodel_table_construct now kw fs
           | None \<Rightarrow> sqlmodel_table_construct now kw fs))"

text \<open>
  \<^verbatim>\<open>Cls(**kw)\<close>: SQLModel's \<^verbatim>\<open>__init__\<close> validates unless the class is a table.
\<close>

definition sqlmodel_init :: "model \<Rightarrow> int \<Rightarrow> kwargs \<Rightarrow> error + pyobject" where
  "sqlmodel_init m now kw =
     (if table m then Inr (sqlmodel_table_construct now kw (model_fields m))
      else model_validate m now kw)"

subsection \<open>The classes of app/models.py\<close>

text \<open>
  The pattern of \<^verbatim>\<open>User.email\<close>:
  \<^verbatim>\<open>^[a-zA-Z0-9_.+-]+@[a-zA-Z0-9-]+\.[a-zA-Z0-9-.]+$\<close>.
\<close>

definition email_regex :: regex where
  "email_regex =
     Seq (Plus (CharSet [(CHR ''a'', CHR ''z''), (CHR ''A'', CHR ''Z''), (CHR ''0'', CHR ''9''),
                         (CHR ''_'', CHR ''_''), (CHR ''.'', CHR ''.''), (CHR ''+'', CHR ''+''),
                         (CHR ''-'', CHR ''-'')]))
    (Seq (Chr CHR ''@'')
    (Seq (Plus (CharSet [(CHR ''a'', CHR ''z''), (CHR ''A'', CHR ''Z''), (CHR ''0'', CHR ''9''),
                         (CHR ''-'', CHR ''-'')]))
    (Seq (Chr CHR ''.'')
         (Plus (CharSet [(CHR ''a'', CHR ''z''), (CHR ''A'', CHR ''Z''), (CHR ''0'', CHR ''9''),
                         (CHR ''-'', CHR ''-''), (CHR ''.'', CHR ''.'')])))))"

text \<open>Persistent models (stored in database).\<close>

definition User :: model where
  "User = \<lparr>class_name = ''User'', table = True, tablename = Some ''users'',
     model_fields =
       [(''id'', PyOptional PyInt, [Default VNone, Primary_key True]),
        (''username'', PyStr, [Max_length 100, Unique True]),
        (''email'', PyStr, [Max_length 255, Unique True, Regex email_regex]),
        (''full_name'', PyStr, [Max_length 200]),
        (''role'', PyEnum UserRole_cls, [Default (VEnum (UserRole_member OFFICIAL))]),
        (''is_active'', PyBool, [Default (VBool True)]),
        (''password_hash'', PyStr, [Max_length 255]),
        (''created_at'', PyDatetime, [Default_factory_utcnow]),
        (''last_login'', PyOptional PyDatetime, [Default VNone])],
     relationships = [''report_interactions'', ''search_history'']\<rparr>"

definition APICredentials :: model where
  "APICredentials = \<lparr>class_name = ''APICredentials'', table = True,
     tablename = Some ''api_credentials'',
     model_fields =
       [(''id'', PyOptional PyInt, [Default VNone, Primary_key True]),
        (''service_name'', PyStr, [Max_length 100]),
        (''api_key'', PyStr, [Max_length 500]),
        (''api_secret'', PyOptional PyStr, [Default VNone, Max_length 500]),
        (''base_url'', PyOptional PyStr, [Default VNone, Max_length 500]),
        (''is_active'', PyBool, [Default (VBool True)]),
        (''created_at'', PyDatetime, [Default_factory_utcnow]),
        (''updated_at'', PyDatetime, [Default_factory_utcnow]),
        (''created_by_user_id'', PyInt, [Foreign_key ''users.id''])],
     relationships = []\<rparr>"

definition IBISWorldReport :: model where
  "IBISWorldReport = \<lparr>class_name = ''IBISWorldReport'', table = True,
     tablename = Some ''ibisworld_reports'',
     model_fields =
       [(''id'', PyOptional PyInt, [Default VNone, Primary_key True]),
        (''report_id'', PyStr, [Max_length 100, Unique True]),
        (''title'', PyStr, [Max_length 500]),
        (''report_type'', PyEnum ReportType_cls, []),
        (''industry_code'', PyOptional PyStr, [Default VNone, Max_length 50]),
        (''company_name'', PyOptional PyStr, [Default VNone, Max_length 300]),
        (''description'', PyStr, [Default (VStr []), Max_length 2000]),
        (''publication_date'', PyOptional PyDatetime, [Default VNone]),
        (''report_url'', PyOptional PyStr, [Default VNone, Max_length 1000]),
        (''page_count'', PyOptional PyInt, [Default VNone]),
        (''report_size_mb'', PyOptional PyDecimal,
           [Default VNone, Decimal_places 2, Max_digits 10]),
        (''tags'', PyList PyStr, [Default (VList []), Sa_column_JSON]),
        (''is_cached'', PyBool, [Default (VBool False)]),
        (''cache_expiry'', PyOptional PyDatetime, [Default VNone]),
        (''last_accessed'', PyOptional PyDatetime, [Default VNone]),
        (''access_count'', PyInt, [Default (VInt 0)]),
        (''created_at'', PyDatetime, [Default_factory_utcnow]),
        (''updated_at'', PyDatetime, [Default_factory_utcnow])],
     relationships = [''interactions'', ''search_results'']\<rparr>"

definition ReportInteraction :: model where
  "ReportInteraction = \<lparr>class_name = ''ReportInteraction'', table = True,
     tablename = Some ''report_interactions'',
     model_fields =
       [(''id'', PyOptional PyInt, [Default VNone, Primary_key True]),
        (''user_id'', PyInt, [Foreign_key ''users.id'']),
        (''report_id'', PyInt, [Foreign_key ''ibisworld_reports.id'']),
        (''interaction_type'', PyEnum InteractionType_cls, []),
        (''question'', PyOptional PyStr, [Default VNone, Max_length 1000]),
        (''response'', PyStr, [Max_length 10000]),
        (''claude_model'', PyStr, [Max_length 100, Default (VStr ''claude-3-sonnet-20240229'')]),
        (''tokens_used'', PyOptional PyInt, [Default VNone]),
        (''response_time_ms'', PyOptional PyInt, [Default VNone]),
        (''created_at'', PyDatetime, [Default_factory_utcnow])],
     relationships = [''user'', ''report'']\<rparr>"

definition SearchHistory :: model where
  "SearchHistory = \<lparr>class_name = ''SearchHistory'', table = True,
     tablename = Some ''search_history'',
     model_fields =
       [(''id'', PyOptional PyInt, [Default VNone, Primary_key True]),
        (''user_id'', PyInt, [Foreign_key ''users.id'']),
        (''search_query'', PyStr, [Max_length 500]),
        (''search_filters'', PyDict, [Default (VDict []), Sa_column_JSON]),
        (''results_count'', PyInt, [Default (VInt 0)]),
        (''created_at'', PyDatetime, [Default_factory_utcnow])],
     relationships = [''user'', ''search_results'']\<rparr>"

definition SearchResult :: model where
  "SearchResult = \<lparr>class_name = ''SearchResult'', table = True,
     tablename = Some ''search_results'',
     model_fields =
       [(''id'', PyOptional PyInt, [Default VNone, Primary_key True]),
        (''search_history_id'', PyInt, [Foreign_key ''search_history.id'']),
        (''report_id'', PyInt, [Foreign_key ''ibisworld_reports.id'']),
        (''relevance_score'', PyOptional PyDecimal,
           [Default VNone, Decimal_places 4, Max_digits 10]),
        (''result_rank'', PyInt, [Default (VInt 0)])],
     relationships = [''search_history'', ''report'']\<rparr>"

definition ReportCache :: model where
  "ReportCache = \<lparr>class_name = ''ReportCache'', table = True,
     tablename = Some ''report_cache'',
     model_fields =
       [(''id'', PyOptional PyInt, [Default VNone, Primary_key True]),
        (''cache_key'', PyStr, [Max_length 255, Unique True]),
        (''cache_type'', PyStr, [Max_length 50]),
        (''cache_data'', PyDict, [Sa_column_JSON]),
        (''expires_at'', PyDatetime, []),
        (''created_at'', PyDatetime, [Default_factory_utcnow]),
        (''hit_count'', PyInt, [Default (VInt 0)]),
        (''last_hit'', PyOptional PyDatetime, [Default VNone])],
     relationships = []\<rparr>"

definition AuditLog :: model where
  "AuditLog = \<lparr>class_name = ''AuditLog'', table = True, tablename = Some ''audit_logs'',
     model_fields =
       [(''id'', PyOptional PyInt, [Default VNone, Primary_key True]),
        (''user_id'', PyOptional PyInt, [Default VNone, Foreign_key ''users.id'']),
        (''action'', PyStr, [Max_length 100]),
        (''resource_type'', PyOptional PyStr, [Default VNone, Max_length 100]),
        (''resource_id'', PyOptional PyStr, [Default VNone, Max_length 255]),
        (''details'', PyDict, [Default (VDict []), Sa_column_JSON]),
        (''ip_address'', PyOptional PyStr, [Default VNone, Max_length 45]),
        (''user_agent'', PyOptional PyStr, [Default VNone, Max_length 500]),
        (''created_at'', PyDatetime, [Default_factory_utcnow])],
     relationships = []\<rparr>"

text \<open>Non-persistent schemas (for validation, forms, API requests/responses).\<close>

definition UserCreate :: model where
  "UserCreate = \<lparr>class_name = ''UserCreate'', table = False, tablename = None,
     model_fields =
       [(''username'', PyStr, [Max_length 100]),
        (''email'', PyStr, [Max_length 255]),
        (''full_name'', PyStr, [Max_length 200]),
        (''password'', PyStr, [Min_length 8, Max_length 255]),
        (''role'', PyEnum UserRole_cls, [Default (VEnum (UserRole_member OFFICIAL))])],
     relationships = []\<rparr>"

definition UserUpdate :: model where
  "UserUpdate = \<lparr>class_name = ''UserUpdate'', table = False, tablename = None,
     model_fields =
       [(''full_name'', PyOptional PyStr, [Default VNone, Max_length 200]),
        (''email'', PyOptional PyStr, [Default VNone, Max_length 255]),
        (''role'', PyOptional (PyEnum UserRole_cls), [Default VNone]),
        (''is_active'', PyOptional PyBool, [Default VNone])],
     relationships = []\<rparr>"

definition UserLogin :: model where
  "UserLogin = \<lparr>class_name = ''UserLogin'', table = False, tablename = None,
     model_fields =
       [(''username'', PyStr, [Max_length 100]),
        (''password'', PyStr, [Max_length 255])],
     relationships = []\<rparr>"

definition ReportSearch :: model where
  "ReportSearch = \<lparr>class_name = ''ReportSearch'', table = False, tablename = None,
     model_fields =
       [(''query'', PyStr, [Max_length 500]),
        (''report_type'', PyOptional (PyEnum ReportType_cls), [Default VNone]),
        (''industry_codes'', PyList PyStr, [Default (VList [])]),
        (''publication_date_from'', PyOptional PyDatetime, [Default VNone]),
        (''publication_date_to'', PyOptional PyDatetime, [Default VNone]),
        (''limit'', PyInt, [Default (VInt 20), Ge 1, Le 100]),
        (''offset'', PyInt, [Default (VInt 0), Ge 0])],
     relationships = []\<rparr>"

definition ReportInteractionCreate :: model where
  "ReportInteractionCreate = \<lparr>class_name = ''ReportInteractionCreate'', table = False,
     tablename = None,
     model_fields =
       [(''report_id'', PyInt, []),
        (''interaction_type'', PyEnum InteractionType_cls, []),
        (''question'', PyOptional PyStr, [Default VNone, Max_length 1000])],
     relationships = []\<rparr>"

definition APICredentialsCreate :: model where
  "APICredentialsCreate = \<lparr>class_name = ''APICredentialsCreate'', table = False,
     tablename = None,
     model_fields =
       [(''service_name'', PyStr, [Max_length 100]),
        (''api_key'', PyStr, [Max_length 500]),
        (''api_secret'', PyOptional PyStr, [Default VNone, Max_length 500]),
        (''base_url'', PyOptional PyStr, [Default VNone, Max_length 500])],
     relationships = []\<rparr>"

definition APICredentialsUpdate :: model where
  "APICredentialsUpdate = \<lparr>class_name = ''APICredentialsUpdate'', table = False,
     tablename = None,
     model_fields =
       [(''api_key'', PyOptional PyStr, [Default VNone, Max_length 500]),
        (''api_secret'', PyOptional PyStr, [Default VNone, Max_length 500]),
        (''base_url'', PyOptional PyStr, [Default VNone, Max_length 500]),
        (''is_active'', PyOptional PyBool, [Default VNone])],
     relationships = []\<rparr>"

definition ReportSummary :: model where
  "ReportSummary = \<lparr>class_name = ''ReportSummary'', table = False, tablename = None,
     model_fields =
       [(''id'', PyInt, []),
        (''report_id'', PyStr, []),
        (''title'', PyStr, []),
        (''report_type'', PyEnum ReportType_cls, []),
        (''industry_code'', PyOptional PyStr, [Default VNone]),
        (''company_name'', PyOptional PyStr, [Default VNone]),
        (''publication_date'', PyOptional PyStr, [Default VNone]),
        (''last_accessed'', PyOptional PyStr, [Default VNone]),
        (''access_count'', PyInt, []),
        (''is_cached'', PyBool, [])],
     relationships = []\<rparr>"

definition InteractionHistory :: model where
  "InteractionHistory = \<lparr>class_name = ''InteractionHistory'', table = False,
     tablename = None,
     model_fields =
       [(''interactions'', PyList PyDict, [Default (VList [])]),
        (''total_count'', PyInt, []),
        (''user_name'', PyStr, []),
        (''report_title'', PyStr, [])],
     relationships = []\<rparr>"

definition all_models :: "model list" where
  "all_models =
     [User, APICredentials, IBISWorldReport, ReportInteraction, SearchHistory, SearchResult,
      ReportCache, AuditLog, UserCreate, UserUpdate, UserLogin, ReportSearch,
      ReportInteractionCreate, APICredentialsCreate, APICredentialsUpdate, ReportSummary,
      InteractionHistory]"

section \<open>Properties\<close>

subsection \<open>What a match is\<close>

text \<open>\<open>re_match\<close> decides membership in the language of the pattern.\<close>

inductive_simps in_lang_Nothing: "in_lang Nothing w"
inductive_simps in_lang_Empty: "in_lang Empty w"
inductive_simps in_lang_Chr: "in_lang (Chr c) w"
inductive_simps in_lang_CharSet: "in_lang (CharSet rs) w"
inductive_simps in_lang_Alt: "in_lang (Alt r s) w"
inductive_simps in_lang_Seq: "in_lang (Seq r s) w"

lemma nullable_in_lang: "nullable r = in_lang r []"
  by (induction r) (auto simp: in_lang_Nothing in_lang_Empty in_lang_Chr in_lang_CharSet
      in_lang_Alt in_lang_Seq intro: in_StarNil)

lemma in_lang_Star_Cons_aux:
  "in_lang x y \<Longrightarrow> x = Star r \<Longrightarrow> y = c # w
   \<Longrightarrow> \<exists>u v. w = u @ v \<and> in_lang r (c # u) \<and> in_lang (Star r) v"
proof (induction arbitrary: w rule: in_lang.induct)
  case (in_StarCons r' u v)
  show ?case
  proof (cases u)
    case Nil
    with in_StarCons show ?thesis by simp
  next
    case (Cons d u')
    with in_StarCons.prems in_StarCons.hyps show ?thesis by auto
  qed
qed simp_all

lemma in_lang_Star_Cons:
  "in_lang (Star r) (c # w) = (\<exists>u v. w = u @ v \<and> in_lang r (c # u) \<and> in_lang (Star r) v)"
proof
  assume "in_lang (Star r) (c # w)"
  then show "\<exists>u v. w = u @ v \<and> in_lang r (c # u) \<and> in_lang (Star r) v"
    by (rule in_lang_Star_Cons_aux) simp_all
next
  assume "\<exists>u v. w = u @ v \<and> in_lang r (c # u) \<and> in_lang (Star r) v"
  then obtain u v where "w = u @ v" "in_lang r (c # u)" "in_lang (Star r) v" by blast
  then show "in_lang (Star r) (c # w)"
    using in_StarCons[of r "c # u" v] by simp
qed

lemma after_in_lang: "in_lang (after c r) w = in_lang r (c # w)"
proof (induction r arbitrary: w)
  case (Seq r s)
  then show ?case
    by (auto simp: in_lang_Alt in_lang_Seq nullable_in_lang Cons_eq_append_conv)
next
  case (Star r)
  then show ?case
    by (auto simp: in_lang_Seq in_lang_Star_Cons)
qed (auto simp: in_lang_Nothing in_lang_Empty in_lang_Chr in_lang_CharSet in_lang_Alt)

lemma re_match_in_lang: "re_match r w = in_lang r w"
  by (induction w arbitrary: r) (simp_all add: nullable_in_lang after_in_lang)

subsection \<open>Validation, field by field\<close>

text \<open>
  A validation that raises nothing has validated every field and stored the result under
  the field's name; a field in error is listed in the error raised.
\<close>

lemma validate_fields_error_mem:
  "(n, t, args) \<in> set fs \<Longrightarrow> validate_field now (n, t, args) (kw n) = Inl e
   \<Longrightarrow> (n, e) \<in> set (fst (validate_fields now kw fs))"
  by (induction fs) (auto split: prod.splits sum.splits)

lemma validate_fields_clean:
  "validate_fields now kw fs = ([], inst) \<Longrightarrow> distinct (map fst fs)
   \<Longrightarrow> (n, t, args) \<in> set fs
   \<Longrightarrow> \<exists>v. validate_field now (n, t, args) (kw n) = Inr v \<and> map_of inst n = Some v"
proof (induction fs arbitrary: inst)
  case Nil
  then show ?case by simp
next
  case (Cons f fs)
  obtain n' t' args' where f: "f = (n', t', args')" by (cases f) auto
  obtain errs' inst' where tl: "validate_fields now kw fs = (errs', inst')"
    by (cases "validate_fields now kw fs") auto
  from Cons.prems(1) f tl obtain v' where
    hd_ok: "validate_field now (n', t', args') (kw n') = Inr v'"
    and errs': "errs' = []" and inst: "inst = (n', v') # inst'"
    by (auto split: sum.splits)
  show ?case
  proof (cases "(n, t, args) = f")
    case True
    with f hd_ok inst show ?thesis by auto
  next
    case False
    with Cons.prems(3) have mem: "(n, t, args) \<in> set fs" by auto
    from Cons.prems(2) f mem have ne: "n \<noteq> n'" by force
    from Cons.prems(2) have "distinct (map fst fs)" by simp
    from Cons.IH[OF _ this mem] tl errs' obtain v where
      "validate_field now (n, t, args) (kw n) = Inr v" "map_of inst' n = Some v" by auto
    with inst ne show ?thesis by auto
  qed
qed

lemma model_validate_field_ok:
  "model_validate m now kw = Inr inst \<Longrightarrow> distinct (map fst (model_fields m))
   \<Longrightarrow> (n, t, args) \<in> set (model_fields m)
   \<Longrightarrow> \<exists>v. validate_field now (n, t, args) (kw n) = Inr v \<and> getattr inst n = Some v"
  unfolding model_validate_def getattr_def
  by (auto split: prod.splits if_splits dest: validate_fields_clean)

lemma model_validate_field_error:
  "(n, t, args) \<in> set (model_fields m) \<Longrightarrow> validate_field now (n, t, args) (kw n) = Inl e
   \<Longrightarrow> \<exists>errs. model_validate m now kw = Inl (ValidationError errs) \<and> (n, e) \<in> set errs"
  using validate_fields_error_mem[of n t args "model_fields m" now kw e]
  unfolding model_validate_def
  by (auto split: prod.splits)

lemma field_name_mem: "(n, t, args) \<in> set fs \<Longrightarrow> n \<in> fst ` set fs"
  by force

lemma table_construct_given:
  "kw n = Some v \<Longrightarrow> distinct (map fst fs) \<Longrightarrow> (n, t, args) \<in> set fs
   \<Longrightarrow> map_of (sqlmodel_table_construct now kw fs) n = Some v"
  by (induction fs) (auto split: option.splits dest: field_name_mem)

lemma table_construct_default:
  "kw n = None \<Longrightarrow> get_default now args = Some d \<Longrightarrow> distinct (map fst fs)
   \<Longrightarrow> (n, t, args) \<in> set fs
   \<Longrightarrow> map_of (sqlmodel_table_construct now kw fs) n = Some d"
  by (induction fs) (auto split: option.splits dest: field_name_mem)


subsection \<open>User.email\<close>

lemma User_names: "distinct (map fst (model_fields User))"
  by (simp add: User_def)








subsection \<open>ReportSearch.limit and ReportSearch.offset\<close>

lemma validate_field_omitted:
  "validate_field now (n, t, args) None = Inr v \<Longrightarrow> get_default now args = Some v"
  by (auto simp: validate_field_def split: option.splits)

lemma validate_int_Inr:
  "validate_field now (n, PyInt, args) (Some a) = Inr v
   \<Longrightarrow> \<exists>i. a = VInt i \<and> v = VInt i \<and> check_int args i = Inr (VInt i)"
  by (auto simp: validate_field_def check_int_def split: pyval.splits if_splits)

lemma ReportSearch_names: "distinct (map fst (model_fields ReportSearch))"
  by (simp add: ReportSearch_def)

lemma ReportSearch_init: "sqlmodel_init ReportSearch now kw = model_validate ReportSearch now kw"
  by (simp add: sqlmodel_init_def ReportSearch_def)

lemma ReportSearch_limit_field:
  "(''limit'', PyInt, [Default (VInt 20), Ge 1, Le 100]) \<in> set (model_fields ReportSearch)"
  by (simp add: ReportSearch_def)

lemma ReportSearch_offset_field:
  "(''offset'', PyInt, [Default (VInt 0), Ge 0]) \<in> set (model_fields ReportSearch)"
  by (simp add: ReportSearch_def)

lemma limit_validated:
  "validate_field now (''limit'', PyInt, [Default (VInt 20), Ge 1, Le 100]) a = Inr v
   \<Longrightarrow> \<exists>l. v = VInt l \<and> 1 \<le> l \<and> l \<le> 100"
proof (cases a)
  case None
  assume "validate_field now (''limit'', PyInt, [Default (VInt 20), Ge 1, Le 100]) a = Inr v"
  with None have "v = VInt 20"
    by (auto dest!: validate_field_omitted simp: get_default_def)
  then show ?thesis by simp
next
  case (Some x)
  assume "validate_field now (''limit'', PyInt, [Default (VInt 20), Ge 1, Le 100]) a = Inr v"
  with Some obtain i where "v = VInt i"
    "check_int [Default (VInt 20), Ge 1, Le 100] i = Inr (VInt i)"
    by (auto dest!: validate_int_Inr)
  then show ?thesis
    by (auto simp: check_int_def get_le_def get_ge_def split: if_splits)
qed

lemma offset_validated:
  "validate_field now (''offset'', PyInt, [Default (VInt 0), Ge 0]) a = Inr v
   \<Longrightarrow> \<exists>k. v = VInt k \<and> 0 \<le> k"
proof (cases a)
  case None
  assume "validate_field now (''offset'', PyInt, [Default (VInt 0), Ge 0]) a = Inr v"
  with None have "v = VInt 0"
    by (auto dest!: validate_field_omitted simp: get_default_def)
  then show ?thesis by simp
next
  case (Some x)
  assume "validate_field now (''offset'', PyInt, [Default (VInt 0), Ge 0]) a = Inr v"
  with Some obtain i where "v = VInt i" "check_int [Default (VInt 0), Ge 0] i = Inr (VInt i)"
    by (auto dest!: validate_int_Inr)
  then show ?thesis
    by (auto simp: check_int_def get_le_def get_ge_def split: if_splits)
qed

text \<open>
  C2. \<^verbatim>\<open>ReportSearch\<close> is not a table class, so constructing it validates. Every
  constructed instance has \<^verbatim>\<open>limit\<close> in the closed interval from 1 to 100 and
  \<^verbatim>\<open>offset\<close> at least 0. Constructing with a \<^verbatim>\<open>limit\<close> below 1 (0 for one) or above 100
  (101 for one) fails with a validation error on \<^verbatim>\<open>limit\<close>, and with a negative
  \<^verbatim>\<open>offset\<close> with one on \<^verbatim>\<open>offset\<close>. Constructing with any \<^verbatim>\<open>limit\<close> from 1 to 100
  and any \<^verbatim>\<open>offset\<close> from 0 on succeeds, the query being a string of at most 500
  characters and the other fields omitted.
\<close>

theorem ReportSearch_limit_offset_bounds:
  "(\<forall>kw now inst. sqlmodel_init ReportSearch now kw = Inr inst \<longrightarrow>
      (\<exists>l k. getattr inst ''limit'' = Some (VInt l) \<and> 1 \<le> l \<and> l \<le> 100
            \<and> getattr inst ''offset'' = Some (VInt k) \<and> 0 \<le> k))
   \<and> (\<forall>kw now l. kw ''limit'' = Some (VInt l) \<and> (l < 1 \<or> 100 < l) \<longrightarrow>
      (\<exists>errs. sqlmodel_init ReportSearch now kw = Inl (ValidationError errs)
             \<and> (''limit'', if l < 1 then greater_than_equal else less_than_equal) \<in> set errs))
   \<and> (\<forall>kw now k. kw ''offset'' = Some (VInt k) \<and> k < 0 \<longrightarrow>
      (\<exists>errs. sqlmodel_init ReportSearch now kw = Inl (ValidationError errs)
             \<and> (''offset'', greater_than_equal) \<in> set errs))
   \<and> (\<forall>kw now q l k.
        kw ''query'' = Some (VStr q) \<and> length q \<le> 500
        \<and> kw ''limit'' = Some (VInt l) \<and> 1 \<le> l \<and> l \<le> 100
        \<and> kw ''offset'' = Some (VInt k) \<and> 0 \<le> k
        \<and> kw ''report_type'' = None \<and> kw ''industry_codes'' = None
        \<and> kw ''publication_date_from'' = None \<and> kw ''publication_date_to'' = None \<longrightarrow>
        sqlmodel_init ReportSearch now kw =
          Inr [(''query'', VStr q), (''report_type'', VNone), (''industry_codes'', VList []),
               (''publication_date_from'', VNone), (''publication_date_to'', VNone),
               (''limit'', VInt l), (''offset'', VInt k)])"
proof (intro conjI allI impI)
  fix kw now inst
  assume "sqlmodel_init ReportSearch now kw = Inr inst"
  then have ok: "model_validate ReportSearch now kw = Inr inst"
    by (simp add: ReportSearch_init)
  from model_validate_field_ok[OF ok ReportSearch_names ReportSearch_limit_field]
    model_validate_field_ok[OF ok ReportSearch_names ReportSearch_offset_field]
  show "\<exists>l k. getattr inst ''limit'' = Some (VInt l) \<and> 1 \<le> l \<and> l \<le> 100
            \<and> getattr inst ''offset'' = Some (VInt k) \<and> 0 \<le> k"
    by (auto dest!: limit_validated offset_validated)
next
  fix kw :: kwargs and now l
  assume a: "kw ''limit'' = Some (VInt l) \<and> (l < 1 \<or> 100 < l)"
  then have "validate_field now (''limit'', PyInt, [Default (VInt 20), Ge 1, Le 100])
      (kw ''limit'') = Inl (if l < 1 then greater_than_equal else less_than_equal)"
    by (auto simp: validate_field_def check_int_def get_le_def get_ge_def)
  from model_validate_field_error[where kw = kw, OF ReportSearch_limit_field this]
  show "\<exists>errs. sqlmodel_init ReportSearch now kw = Inl (ValidationError errs)
      \<and> (''limit'', if l < 1 then greater_than_equal else less_than_equal) \<in> set errs"
    by (simp add: ReportSearch_init)
next
  fix kw :: kwargs and now k
  assume a: "kw ''offset'' = Some (VInt k) \<and> k < 0"
  then have "validate_field now (''offset'', PyInt, [Default (VInt 0), Ge 0])
      (kw ''offset'') = Inl greater_than_equal"
    by (auto simp: validate_field_def check_int_def get_le_def get_ge_def)
  from model_validate_field_error[where kw = kw, OF ReportSearch_offset_field this]
  show "\<exists>errs. sqlmodel_init ReportSearch now kw = Inl (ValidationError errs)
      \<and> (''offset'', greater_than_equal) \<in> set errs"
    by (simp add: ReportSearch_init)
next
  fix kw :: kwargs and now q l k
  assume "kw ''query'' = Some (VStr q) \<and> length q \<le> 500
        \<and> kw ''limit'' = Some (VInt l) \<and> 1 \<le> l \<and> l \<le> 100
        \<and> kw ''offset'' = Some (VInt k) \<and> 0 \<le> k
        \<and> kw ''report_type'' = None \<and> kw ''industry_codes'' = None
        \<and> kw ''publication_date_from'' = None \<and> kw ''publication_date_to'' = None"
  then show "sqlmodel_init ReportSearch now kw =
          Inr [(''query'', VStr q), (''report_type'', VNone), (''industry_codes'', VList []),
               (''publication_date_from'', VNone), (''publication_date_to'', VNone),
               (''limit'', VInt l), (''offset'', VInt k)]"
    by (simp add: sqlmodel_init_def ReportSearch_def model_validate_def validate_field_def
        check_str_def check_int_def get_default_def get_max_length_def get_min_length_def
        get_regex_def get_ge_def get_le_def)
qed

theorem ReportSearch_limit_offset_bounds_witness:
  "(\<exists>l k. getattr [(''query'', VStr ''retail''), (''report_type'', VNone),
                    (''industry_codes'', VList []), (''publication_date_from'', VNone),
                    (''publication_date_to'', VNone), (''limit'', VInt 100),
                    (''offset'', VInt 0)] ''limit'' = Some (VInt l) \<and> 1 \<le> l \<and> l \<le> 100
          \<and> getattr [(''query'', VStr ''retail''), (''report_type'', VNone),
                    (''industry_codes'', VList []), (''publication_date_from'', VNone),
                    (''publication_date_to'', VNone), (''limit'', VInt 100),
                    (''offset'', VInt 0)] ''offset'' = Some (VInt k) \<and> 0 \<le> k)
   \<and> (\<exists>errs. sqlmodel_init ReportSearch 7 [''query'' \<mapsto> VStr ''retail'', ''limit'' \<mapsto> VInt 0]
          = Inl (ValidationError errs) \<and> (''limit'', greater_than_equal) \<in> set errs)
   \<and> (\<exists>errs. sqlmodel_init ReportSearch 7 [''query'' \<mapsto> VStr ''retail'', ''limit'' \<mapsto> VInt 101]
          = Inl (ValidationError errs) \<and> (''limit'', less_than_equal) \<in> set errs)
   \<and> (\<exists>errs. sqlmodel_init ReportSearch 7 [''query'' \<mapsto> VStr ''retail'', ''offset'' \<mapsto> VInt (- 1)]
          = Inl (ValidationError errs) \<and> (''offset'', greater_than_equal) \<in> set errs)
   \<and> sqlmodel_init ReportSearch 7
        [''query'' \<mapsto> VStr ''retail'', ''limit'' \<mapsto> VInt 100, ''offset'' \<mapsto> VInt 0]
      = Inr [(''query'', VStr ''retail''), (''report_type'', VNone),
             (''industry_codes'', VList []), (''publication_date_from'', VNone),
             (''publication_date_to'', VNone), (''limit'', VInt 100), (''offset'', VInt 0)]"
proof -
  note main = ReportSearch_limit_offset_bounds
  let ?kw = "[''query'' \<mapsto> VStr ''retail'', ''limit'' \<mapsto> VInt 100, ''offset'' \<mapsto> VInt 0]"
  have ok: "sqlmodel_init ReportSearch 7 ?kw
      = Inr [(''query'', VStr ''retail''), (''report_type'', VNone),
             (''industry_codes'', VList []), (''publication_date_from'', VNone),
             (''publication_date_to'', VNone), (''limit'', VInt 100), (''offset'', VInt 0)]"
    using main[THEN conjunct2, THEN conjunct2, THEN conjunct2, rule_format,
        where kw = "?kw" and q = "''retail''" and l = 100 and k = 0 and now = 7]
    by simp
  note 1 = main[THEN conjunct1, rule_format, OF ok]
  have 2: "\<exists>errs. sqlmodel_init ReportSearch 7 [''query'' \<mapsto> VStr ''retail'', ''limit'' \<mapsto> VInt 0]
          = Inl (ValidationError errs) \<and> (''limit'', greater_than_equal) \<in> set errs"
    using main[THEN conjunct2, THEN conjunct1, rule_format,
        where kw = "[''query'' \<mapsto> VStr ''retail'', ''limit'' \<mapsto> VInt 0]" and l = 0 and now = 7]
    by simp
  have 3: "\<exists>errs. sqlmodel_init ReportSearch 7 [''query'' \<mapsto> VStr ''retail'', ''limit'' \<mapsto> VInt 101]
          = Inl (ValidationError errs) \<and> (''limit'', less_than_equal) \<in> set errs"
    using main[THEN conjunct2, THEN conjunct1, rule_format,
        where kw = "[''query'' \<mapsto> VStr ''retail'', ''limit'' \<mapsto> VInt 101]" and l = 101 and now = 7]
    by simp
  have 4: "\<exists>errs. sqlmodel_init ReportSearch 7 [''query'' \<mapsto> VStr ''retail'', ''offset'' \<mapsto> VInt (- 1)]
          = Inl (ValidationError errs) \<and> (''offset'', greater_than_equal) \<in> set errs"
    using main[THEN conjunct2, THEN conjunct2, THEN conjunct1, rule_format,
        where kw = "[''query'' \<mapsto> VStr ''retail'', ''offset'' \<mapsto> VInt (- 1)]" and k = "- 1" and now = 7]
    by simp
  from 1 2 3 4 ok show ?thesis by blast
qed

subsection \<open>UserCreate.password and the minimum lengths\<close>

lemma UserCreate_init: "sqlmodel_init UserCreate now kw = model_validate UserCreate now kw"
  by (simp add: sqlmodel_init_def UserCreate_def)

lemma UserCreate_password_field:
  "(''password'', PyStr, [Min_length 8, Max_length 255]) \<in> set (model_fields UserCreate)"
  by (simp add: UserCreate_def)

lemma UserCreate_short_password:
  "kw ''password'' = Some (VStr p) \<Longrightarrow> length p < 8
   \<Longrightarrow> \<exists>errs. sqlmodel_init UserCreate now kw = Inl (ValidationError errs)
            \<and> (''password'', string_too_short) \<in> set errs"
proof -
  assume p: "kw ''password'' = Some (VStr p)" and short: "length p < 8"
  then have "validate_field now (''password'', PyStr, [Min_length 8, Max_length 255])
      (kw ''password'') = Inl string_too_short"
    by (simp add: validate_field_def check_str_def get_min_length_def)
  from model_validate_field_error[where kw = kw, OF UserCreate_password_field this]
  show ?thesis by (simp add: UserCreate_init)
qed

lemma only_password_has_min_length:
  "\<forall>m \<in> set all_models. \<forall>(n, t, args) \<in> set (model_fields m).
     get_min_length args \<noteq> None \<longrightarrow>
       class_name m = ''UserCreate'' \<and> n = ''password'' \<and> t = PyStr
       \<and> get_min_length args = Some 8 \<and> get_max_length args = Some 255"
  by (simp add: all_models_def get_min_length_def get_max_length_def
      User_def APICredentials_def IBISWorldReport_def ReportInteraction_def SearchHistory_def
      SearchResult_def ReportCache_def AuditLog_def UserCreate_def UserUpdate_def UserLogin_def
      ReportSearch_def ReportInteractionCreate_def APICredentialsCreate_def
      APICredentialsUpdate_def ReportSummary_def InteractionHistory_def)

text \<open>
  C3. Constructing a \<^verbatim>\<open>UserCreate\<close> whose password has fewer than 8 characters (7 for
  one) fails with a validation error that reports the password as too short;
  constructing one whose password has 8 to 255 characters succeeds, the other fields
  being strings within their bounds and \<^verbatim>\<open>role\<close> omitted. Of all the fields of all the
  classes, \<^verbatim>\<open>UserCreate.password\<close> is the only one that declares a minimum length (8,
  with the maximum 255); every other length bound is a maximum.
\<close>

theorem UserCreate_password_length:
  "(\<forall>kw now p. kw ''password'' = Some (VStr p) \<and> length p < 8 \<longrightarrow>
      (\<exists>errs. sqlmodel_init UserCreate now kw = Inl (ValidationError errs)
             \<and> (''password'', string_too_short) \<in> set errs))
   \<and> (\<forall>kw now u e f p.
        kw ''username'' = Some (VStr u) \<and> length u \<le> 100
        \<and> kw ''email'' = Some (VStr e) \<and> length e \<le> 255
        \<and> kw ''full_name'' = Some (VStr f) \<and> length f \<le> 200
        \<and> kw ''password'' = Some (VStr p) \<and> 8 \<le> length p \<and> length p \<le> 255
        \<and> kw ''role'' = None \<longrightarrow>
        sqlmodel_init UserCreate now kw =
          Inr [(''username'', VStr u), (''email'', VStr e), (''full_name'', VStr f),
               (''password'', VStr p), (''role'', VEnum (UserRole_member OFFICIAL))])
   \<and> (\<forall>m \<in> set all_models. \<forall>(n, t, args) \<in> set (model_fields m).
        get_min_length args \<noteq> None \<longrightarrow>
          class_name m = ''UserCreate'' \<and> n = ''password'' \<and> t = PyStr
          \<and> get_min_length args = Some 8 \<and> get_max_length args = Some 255)"
proof (intro conjI allI impI)
  fix kw :: kwargs and now p
  assume "kw ''password'' = Some (VStr p) \<and> length p < 8"
  then show "\<exists>errs. sqlmodel_init UserCreate now kw = Inl (ValidationError errs)
             \<and> (''password'', string_too_short) \<in> set errs"
    using UserCreate_short_password by blast
next
  fix kw :: kwargs and now u e f p
  assume "kw ''username'' = Some (VStr u) \<and> length u \<le> 100
        \<and> kw ''email'' = Some (VStr e) \<and> length e \<le> 255
        \<and> kw ''full_name'' = Some (VStr f) \<and> length f \<le> 200
        \<and> kw ''password'' = Some (VStr p) \<and> 8 \<le> length p \<and> length p \<le> 255
        \<and> kw ''role'' = None"
  then show "sqlmodel_init UserCreate now kw =
          Inr [(''username'', VStr u), (''email'', VStr e), (''full_name'', VStr f),
               (''password'', VStr p), (''role'', VEnum (UserRole_member OFFICIAL))]"
    by (simp add: sqlmodel_init_def UserCreate_def model_validate_def validate_field_def
        check_str_def get_default_def get_max_length_def get_min_length_def get_regex_def)
next
  show "\<forall>m \<in> set all_models. \<forall>(n, t, args) \<in> set (model_fields m).
        get_min_length args \<noteq> None \<longrightarrow>
          class_name m = ''UserCreate'' \<and> n = ''password'' \<and> t = PyStr
          \<and> get_min_length args = Some 8 \<and> get_max_length args = Some 255"
    by (rule only_password_has_min_length)
qed

theorem UserCreate_password_length_witness:
  "(\<exists>errs. sqlmodel_init UserCreate 7
        [''username'' \<mapsto> VStr ''ann'', ''email'' \<mapsto> VStr ''ann@example.org'',
         ''full_name'' \<mapsto> VStr ''Ann'', ''password'' \<mapsto> VStr ''1234567'']
      = Inl (ValidationError errs) \<and> (''password'', string_too_short) \<in> set errs)
   \<and> sqlmodel_init UserCreate 7
        [''username'' \<mapsto> VStr ''ann'', ''email'' \<mapsto> VStr ''ann@example.org'',
         ''full_name'' \<mapsto> VStr ''Ann'', ''password'' \<mapsto> VStr ''12345678'']
      = Inr [(''username'', VStr ''ann''), (''email'', VStr ''ann@example.org''),
             (''full_name'', VStr ''Ann''), (''password'', VStr ''12345678''),
             (''role'', VEnum (UserRole_member OFFICIAL))]
   \<and> UserCreate \<in> set all_models
   \<and> (''password'', PyStr, [Min_length 8, Max_length 255]) \<in> set (model_fields UserCreate)
   \<and> get_min_length [Min_length 8, Max_length 255] = Some 8
   \<and> get_max_length [Min_length 8, Max_length 255] = Some 255
   \<and> User \<in> set all_models
   \<and> (''username'', PyStr, [Max_length 100, Unique True]) \<in> set (model_fields User)
   \<and> get_min_length [Max_length 100, Unique True] = None"
proof -
  note main = UserCreate_password_length
  have 1: "\<exists>errs. sqlmodel_init UserCreate 7
        [''username'' \<mapsto> VStr ''ann'', ''email'' \<mapsto> VStr ''ann@example.org'',
         ''full_name'' \<mapsto> VStr ''Ann'', ''password'' \<mapsto> VStr ''1234567'']
      = Inl (ValidationError errs) \<and> (''password'', string_too_short) \<in> set errs"
    using main[THEN conjunct1, rule_format,
        where kw = "[''username'' \<mapsto> VStr ''ann'', ''email'' \<mapsto> VStr ''ann@example.org'',
         ''full_name'' \<mapsto> VStr ''Ann'', ''password'' \<mapsto> VStr ''1234567'']"
          and p = "''1234567''" and now = 7]
    by simp
  have 2: "sqlmodel_init UserCreate 7
        [''username'' \<mapsto> VStr ''ann'', ''email'' \<mapsto> VStr ''ann@example.org'',
         ''full_name'' \<mapsto> VStr ''Ann'', ''password'' \<mapsto> VStr ''12345678'']
      = Inr [(''username'', VStr ''ann''), (''email'', VStr ''ann@example.org''),
             (''full_name'', VStr ''Ann''), (''password'', VStr ''12345678''),
             (''role'', VEnum (UserRole_member OFFICIAL))]"
    using main[THEN conjunct2, THEN conjunct1, rule_format,
        where kw = "[''username'' \<mapsto> VStr ''ann'', ''email'' \<mapsto> VStr ''ann@example.org'',
         ''full_name'' \<mapsto> VStr ''Ann'', ''password'' \<mapsto> VStr ''12345678'']"
          and u = "''ann''" and e = "''ann@example.org''" and f = "''Ann''"
          and p = "''12345678''" and now = 7]
    by simp
  have 3: "UserCreate \<in> set all_models" "User \<in> set all_models"
    by (simp_all add: all_models_def)
  have 4: "(''password'', PyStr, [Min_length 8, Max_length 255]) \<in> set (model_fields UserCreate)"
    by (simp add: UserCreate_def)
  have 5: "(''username'', PyStr, [Max_length 100, Unique True]) \<in> set (model_fields User)"
    by (simp add: User_def)
  have 6: "get_min_length [Min_length 8, Max_length 255] = Some 8"
    "get_max_length [Min_length 8, Max_length 255] = Some 255"
    using main[THEN conjunct2, THEN conjunct2, rule_format, OF 3(1) 4]
    by (simp_all add: get_min_length_def)
  have 7: "get_min_length [Max_length 100, Unique True] = None"
    using main[THEN conjunct2, THEN conjunct2, rule_format, OF 3(2) 5]
    by (auto simp: User_def)
  from 1 2 3 4 5 6 7 show ?thesis by blast
qed

subsection \<open>The defaults of ReportSearch\<close>

lemma ReportSearch_report_type_field:
  "(''report_type'', PyOptional (PyEnum ReportType_cls), [Default VNone])
     \<in> set (model_fields ReportSearch)"
  by (simp add: ReportSearch_def)

lemma ReportSearch_industry_codes_field:
  "(''industry_codes'', PyList PyStr, [Default (VList [])]) \<in> set (model_fields ReportSearch)"
  by (simp add: ReportSearch_def)

lemma model_validate_omitted:
  "model_validate m now kw = Inr inst \<Longrightarrow> distinct (map fst (model_fields m))
   \<Longrightarrow> (n, t, args) \<in> set (model_fields m) \<Longrightarrow> kw n = None
   \<Longrightarrow> \<exists>d. get_default now args = Some d \<and> getattr inst n = Some d"
  by (auto dest!: model_validate_field_ok validate_field_omitted)

text \<open>
  C9. A constructed \<^verbatim>\<open>ReportSearch\<close> has \<^verbatim>\<open>limit\<close> 20 when \<^verbatim>\<open>limit\<close> was omitted,
  \<^verbatim>\<open>offset\<close> 0 when \<^verbatim>\<open>offset\<close> was omitted, \<^verbatim>\<open>report_type\<close> \<^verbatim>\<open>None\<close> when that was
  omitted and the empty list as \<^verbatim>\<open>industry_codes\<close> when those were omitted; constructing
  with only a query of at most 500 characters succeeds and gives exactly these values.
\<close>

theorem ReportSearch_defaults:
  "(\<forall>kw now inst. sqlmodel_init ReportSearch now kw = Inr inst \<longrightarrow>
      (kw ''limit'' = None \<longrightarrow> getattr inst ''limit'' = Some (VInt 20))
      \<and> (kw ''offset'' = None \<longrightarrow> getattr inst ''offset'' = Some (VInt 0))
      \<and> (kw ''report_type'' = None \<longrightarrow> getattr inst ''report_type'' = Some VNone)
      \<and> (kw ''industry_codes'' = None \<longrightarrow> getattr inst ''industry_codes'' = Some (VList [])))
   \<and> (\<forall>now q. length q \<le> 500 \<longrightarrow>
        sqlmodel_init ReportSearch now [''query'' \<mapsto> VStr q] =
          Inr [(''query'', VStr q), (''report_type'', VNone), (''industry_codes'', VList []),
               (''publication_date_from'', VNone), (''publication_date_to'', VNone),
               (''limit'', VInt 20), (''offset'', VInt 0)])"
proof (intro conjI allI impI)
  fix kw now inst
  assume "sqlmodel_init ReportSearch now kw = Inr inst"
  then have ok: "model_validate ReportSearch now kw = Inr inst"
    by (simp add: ReportSearch_init)
  note omitted = model_validate_omitted[OF ok ReportSearch_names]
  { assume "kw ''limit'' = None"
    from omitted[OF ReportSearch_limit_field this]
    show "getattr inst ''limit'' = Some (VInt 20)" by (simp add: get_default_def) }
  { assume "kw ''offset'' = None"
    from omitted[OF ReportSearch_offset_field this]
    show "getattr inst ''offset'' = Some (VInt 0)" by (simp add: get_default_def) }
  { assume "kw ''report_type'' = None"
    from omitted[OF ReportSearch_report_type_field this]
    show "getattr inst ''report_type'' = Some VNone" by (simp add: get_default_def) }
  { assume "kw ''industry_codes'' = None"
    from omitted[OF ReportSearch_industry_codes_field this]
    show "getattr inst ''industry_codes'' = Some (VList [])" by (simp add: get_default_def) }
next
  fix now :: int and q :: string
  assume "length q \<le> 500"
  then show "sqlmodel_init ReportSearch now [''query'' \<mapsto> VStr q] =
          Inr [(''query'', VStr q), (''report_type'', VNone), (''industry_codes'', VList []),
               (''publication_date_from'', VNone), (''publication_date_to'', VNone),
               (''limit'', VInt 20), (''offset'', VInt 0)]"
    by (simp add: sqlmodel_init_def ReportSearch_def model_validate_def validate_field_def
        check_str_def get_default_def get_max_length_def get_min_length_def get_regex_def)
qed

theorem ReportSearch_defaults_witness:
  "sqlmodel_init ReportSearch 7 [''query'' \<mapsto> VStr ''retail''] =
      Inr [(''query'', VStr ''retail''), (''report_type'', VNone), (''industry_codes'', VList []),
           (''publication_date_from'', VNone), (''publication_date_to'', VNone),
           (''limit'', VInt 20), (''offset'', VInt 0)]
   \<and> getattr [(''query'', VStr ''retail''), (''report_type'', VNone),
               (''industry_codes'', VList []), (''publication_date_from'', VNone),
               (''publication_date_to'', VNone), (''limit'', VInt 20), (''offset'', VInt 0)]
        ''limit'' = Some (VInt 20)
   \<and> getattr [(''query'', VStr ''retail''), (''report_type'', VNone),
               (''industry_codes'', VList []), (''publication_date_from'', VNone),
               (''publication_date_to'', VNone), (''limit'', VInt 20), (''offset'', VInt 0)]
        ''offset'' = Some (VInt 0)
   \<and> getattr [(''query'', VStr ''retail''), (''report_type'', VNone),
               (''industry_codes'', VList []), (''publication_date_from'', VNone),
               (''publication_date_to'', VNone), (''limit'', VInt 20), (''offset'', VInt 0)]
        ''report_type'' = Some VNone
   \<and> getattr [(''query'', VStr ''retail''), (''report_type'', VNone),
               (''industry_codes'', VList []), (''publication_date_from'', VNone),
               (''publication_date_to'', VNone), (''limit'', VInt 20), (''offset'', VInt 0)]
        ''industry_codes'' = Some (VList [])"
proof -
  note main = ReportSearch_defaults
  have ok: "sqlmodel_init ReportSearch 7 [''query'' \<mapsto> VStr ''retail''] =
      Inr [(''query'', VStr ''retail''), (''report_type'', VNone), (''industry_codes'', VList []),
           (''publication_date_from'', VNone), (''publication_date_to'', VNone),
           (''limit'', VInt 20), (''offset'', VInt 0)]"
    using main[THEN conjunct2, rule_format, of "''retail''" 7] by simp
  from main[THEN conjunct1, rule_format, OF ok] ok
  show ?thesis by simp
qed

subsection \<open>UserLogin.password\<close>

lemma UserLogin_init: "sqlmodel_init UserLogin now kw = model_validate UserLogin now kw"
  by (simp add: sqlmodel_init_def UserLogin_def)

lemma UserLogin_password_field:
  "(''password'', PyStr, [Max_length 255]) \<in> set (model_fields UserLogin)"
  by (simp add: UserLogin_def)

text \<open>
  C10. \<^verbatim>\<open>UserLogin.password\<close> has a maximum length of 255 and no minimum: constructing
  a \<^verbatim>\<open>UserLogin\<close> with a username of at most 100 characters and any password of at
  most 255 characters, the empty string included, succeeds and keeps both; a longer
  password is refused as too long. \<^verbatim>\<open>UserCreate\<close>, by contrast, refuses every password
  of fewer than 8 characters.
\<close>

theorem UserLogin_password_no_minimum:
  "(\<forall>kw now u p.
      kw ''username'' = Some (VStr u) \<and> length u \<le> 100
      \<and> kw ''password'' = Some (VStr p) \<and> length p \<le> 255 \<longrightarrow>
      sqlmodel_init UserLogin now kw = Inr [(''username'', VStr u), (''password'', VStr p)])
   \<and> (\<forall>kw now p. kw ''password'' = Some (VStr p) \<and> 255 < length p \<longrightarrow>
      (\<exists>errs. sqlmodel_init UserLogin now kw = Inl (ValidationError errs)
             \<and> (''password'', string_too_long) \<in> set errs))
   \<and> (\<forall>kw now p. kw ''password'' = Some (VStr p) \<and> length p < 8 \<longrightarrow>
      (\<exists>errs. sqlmodel_init UserCreate now kw = Inl (ValidationError errs)
             \<and> (''password'', string_too_short) \<in> set errs))"
proof (intro conjI allI impI)
  fix kw :: kwargs and now u p
  assume "kw ''username'' = Some (VStr u) \<and> length u \<le> 100
      \<and> kw ''password'' = Some (VStr p) \<and> length p \<le> 255"
  then show "sqlmodel_init UserLogin now kw = Inr [(''username'', VStr u), (''password'', VStr p)]"
    by (simp add: sqlmodel_init_def UserLogin_def model_validate_def validate_field_def
        check_str_def get_default_def get_max_length_def get_min_length_def get_regex_def)
next
  fix kw :: kwargs and now p
  assume "kw ''password'' = Some (VStr p) \<and> 255 < length p"
  then have "validate_field now (''password'', PyStr, [Max_length 255]) (kw ''password'')
      = Inl string_too_long"
    by (simp add: validate_field_def check_str_def get_min_length_def get_max_length_def)
  from model_validate_field_error[where kw = kw, OF UserLogin_password_field this]
  show "\<exists>errs. sqlmodel_init UserLogin now kw = Inl (ValidationError errs)
             \<and> (''password'', string_too_long) \<in> set errs"
    by (simp add: UserLogin_init)
next
  fix kw :: kwargs and now p
  assume "kw ''password'' = Some (VStr p) \<and> length p < 8"
  then show "\<exists>errs. sqlmodel_init UserCreate now kw = Inl (ValidationError errs)
             \<and> (''password'', string_too_short) \<in> set errs"
    using UserCreate_short_password by blast
qed

theorem UserLogin_password_no_minimum_witness:
  "sqlmodel_init UserLogin 7 [''username'' \<mapsto> VStr ''ann'', ''password'' \<mapsto> VStr []]
     = Inr [(''username'', VStr ''ann''), (''password'', VStr [])]
   \<and> (\<exists>errs. sqlmodel_init UserLogin 7
          [''username'' \<mapsto> VStr ''ann'', ''password'' \<mapsto> VStr (replicate 256 CHR ''x'')]
        = Inl (ValidationError errs) \<and> (''password'', string_too_long) \<in> set errs)
   \<and> (\<exists>errs. sqlmodel_init UserCreate 7
          [''username'' \<mapsto> VStr ''ann'', ''email'' \<mapsto> VStr ''ann@example.org'',
           ''full_name'' \<mapsto> VStr ''Ann'', ''password'' \<mapsto> VStr []]
        = Inl (ValidationError errs) \<and> (''password'', string_too_short) \<in> set errs)"
proof -
  note main = UserLogin_password_no_minimum
  have 1: "sqlmodel_init UserLogin 7 [''username'' \<mapsto> VStr ''ann'', ''password'' \<mapsto> VStr []]
     = Inr [(''username'', VStr ''ann''), (''password'', VStr [])]"
    using main[THEN conjunct1, rule_format,
        where kw = "[''username'' \<mapsto> VStr ''ann'', ''password'' \<mapsto> VStr []]"
          and u = "''ann''" and p = "[]" and now = 7]
    by simp
  have 2: "\<exists>errs. sqlmodel_init UserLogin 7
          [''username'' \<mapsto> VStr ''ann'', ''password'' \<mapsto> VStr (replicate 256 CHR ''x'')]
        = Inl (ValidationError errs) \<and> (''password'', string_too_long) \<in> set errs"
    using main[THEN conjunct2, THEN conjunct1, rule_format,
        where kw = "[''username'' \<mapsto> VStr ''ann'', ''password'' \<mapsto> VStr (replicate 256 CHR ''x'')]"
          and p = "replicate 256 CHR ''x''" and now = 7]
    by simp
  have 3: "\<exists>errs. sqlmodel_init UserCreate 7
          [''username'' \<mapsto> VStr ''ann'', ''email'' \<mapsto> VStr ''ann@example.org'',
           ''full_name'' \<mapsto> VStr ''Ann'', ''password'' \<mapsto> VStr []]
        = Inl (ValidationError errs) \<and> (''password'', string_too_short) \<in> set errs"
    using main[THEN conjunct2, THEN conjunct2, rule_format,
        where kw = "[''username'' \<mapsto> VStr ''ann'', ''email'' \<mapsto> VStr ''ann@example.org'',
           ''full_name'' \<mapsto> VStr ''Ann'', ''password'' \<mapsto> VStr []]"
          and p = "[]" and now = 7]
    by simp
  from 1 2 3 show ?thesis by blast
qed

subsection \<open>Defaults\<close>

text \<open>
  What a constructed table instance holds under the name of a field: the argument when
  one was given, else the default, else nothing.
\<close>

lemma table_construct_no_field:
  "n \<notin> fst ` set fs \<Longrightarrow> map_of (sqlmodel_table_construct now kw fs) n = None"
  by (induction fs) (auto split: option.splits)

lemma table_construct_unset:
  "kw n = None \<Longrightarrow> get_default now args = None \<Longrightarrow> distinct (map fst fs)
   \<Longrightarrow> (n, t, args) \<in> set fs
   \<Longrightarrow> map_of (sqlmodel_table_construct now kw fs) n = None"
  by (induction fs)
     (auto split: option.splits dest: field_name_mem simp: table_construct_no_field)

lemma table_construct_attr:
  "distinct (map fst fs) \<Longrightarrow> (n, t, args) \<in> set fs
   \<Longrightarrow> map_of (sqlmodel_table_construct now kw fs) n =
       (case kw n of Some v \<Rightarrow> Some v | None \<Rightarrow> get_default now args)"
proof (cases "kw n")
  case None
  assume d: "distinct (map fst fs)" and mem: "(n, t, args) \<in> set fs"
  show ?thesis
  proof (cases "get_default now args")
    case (Some dv)
    from table_construct_default[where kw = kw, OF None Some d mem] None Some
    show ?thesis by simp
  next
    case nodefault: None
    from table_construct_unset[where kw = kw, OF None nodefault d mem] None nodefault
    show ?thesis by simp
  qed
next
  case (Some v)
  assume d: "distinct (map fst fs)" and mem: "(n, t, args) \<in> set fs"
  from table_construct_given[where kw = kw, OF Some d mem] Some show ?thesis by simp
qed

lemma table_init_attr:
  "table m \<Longrightarrow> distinct (map fst (model_fields m)) \<Longrightarrow> (n, t, args) \<in> set (model_fields m)
   \<Longrightarrow> \<exists>inst. sqlmodel_init m now kw = Inr inst
        \<and> getattr inst n = (case kw n of Some v \<Rightarrow> Some v | None \<Rightarrow> get_default now args)"
  by (simp add: sqlmodel_init_def getattr_def table_construct_attr)

lemma IBISWorldReport_names: "distinct (map fst (model_fields IBISWorldReport))"
  by (simp add: IBISWorldReport_def)


lemma User_role_field:
  "(''role'', PyEnum UserRole_cls, [Default (VEnum (UserRole_member OFFICIAL))])
     \<in> set (model_fields User)"
  by (simp add: User_def)

lemma User_is_active_field:
  "(''is_active'', PyBool, [Default (VBool True)]) \<in> set (model_fields User)"
  by (simp add: User_def)

lemma IBISWorldReport_access_count_field:
  "(''access_count'', PyInt, [Default (VInt 0)]) \<in> set (model_fields IBISWorldReport)"
  by (simp add: IBISWorldReport_def)

lemma IBISWorldReport_is_cached_field:
  "(''is_cached'', PyBool, [Default (VBool False)]) \<in> set (model_fields IBISWorldReport)"
  by (simp add: IBISWorldReport_def)

lemma default_at_construction:
  assumes "table m" "distinct (map fst (model_fields m))"
    "(n, t, args) \<in> set (model_fields m)" "get_default now args = Some d"
  shows "(kw n = None \<longrightarrow>
            (\<exists>inst. sqlmodel_init m now kw = Inr inst \<and> getattr inst n = Some d)
            \<and> (\<forall>inst. model_validate m now kw = Inr inst \<longrightarrow> getattr inst n = Some d))
         \<and> (\<forall>v. kw n = Some v \<longrightarrow>
            (\<exists>inst. sqlmodel_init m now kw = Inr inst \<and> getattr inst n = Some v))"
proof (intro conjI impI allI)
  assume "kw n = None"
  with table_init_attr[OF assms(1-3), of now kw] assms(4)
  show "\<exists>inst. sqlmodel_init m now kw = Inr inst \<and> getattr inst n = Some d" by simp
next
  fix inst
  assume "kw n = None" "model_validate m now kw = Inr inst"
  from model_validate_omitted[OF this(2) assms(2,3) this(1)] assms(4)
  show "getattr inst n = Some d" by simp
next
  fix v
  assume "kw n = Some v"
  with table_init_attr[OF assms(1-3), of now kw]
  show "\<exists>inst. sqlmodel_init m now kw = Inr inst \<and> getattr inst n = Some v" by simp
qed

text \<open>
  C6. The defaults are applied when the instance is made and the field was omitted: a
  \<^verbatim>\<open>User\<close> made without \<^verbatim>\<open>role\<close> has the role \<^verbatim>\<open>official\<close> and one made without
  \<^verbatim>\<open>is_active\<close> is active; an \<^verbatim>\<open>IBISWorldReport\<close> made without \<^verbatim>\<open>access_count\<close> has
  the count 0 and one made without \<^verbatim>\<open>is_cached\<close> is not cached. This holds for
  construction, which always succeeds for these table classes, and for every instance
  that validation returns. A value that was given is the value the instance holds: the
  default does not replace it.
\<close>

theorem defaults_applied_at_construction:
  "\<forall>(m, n, d) \<in> set [(User, ''role'', VEnum (UserRole_member OFFICIAL)),
                       (User, ''is_active'', VBool True),
                       (IBISWorldReport, ''access_count'', VInt 0),
                       (IBISWorldReport, ''is_cached'', VBool False)].
     \<forall>kw now.
       (kw n = None \<longrightarrow>
          (\<exists>inst. sqlmodel_init m now kw = Inr inst \<and> getattr inst n = Some d)
          \<and> (\<forall>inst. model_validate m now kw = Inr inst \<longrightarrow> getattr inst n = Some d))
       \<and> (\<forall>v. kw n = Some v \<longrightarrow>
          (\<exists>inst. sqlmodel_init m now kw = Inr inst \<and> getattr inst n = Some v))"
proof -
  have user: "table User" by (simp add: User_def)
  have report: "table IBISWorldReport" by (simp add: IBISWorldReport_def)
  have d1: "\<And>now. get_default now [Default (VEnum (UserRole_member OFFICIAL))]
      = Some (VEnum (UserRole_member OFFICIAL))"
    and d2: "\<And>now. get_default now [Default (VBool True)] = Some (VBool True)"
    and d3: "\<And>now. get_default now [Default (VInt 0)] = Some (VInt 0)"
    and d4: "\<And>now. get_default now [Default (VBool False)] = Some (VBool False)"
    by (simp_all add: get_default_def)
  note a = default_at_construction[OF user User_names User_role_field d1]
  note b = default_at_construction[OF user User_names User_is_active_field d2]
  note c = default_at_construction[OF report IBISWorldReport_names
      IBISWorldReport_access_count_field d3]
  note d = default_at_construction[OF report IBISWorldReport_names
      IBISWorldReport_is_cached_field d4]
  show ?thesis
    using a b c d by simp
qed

theorem defaults_applied_at_construction_witness:
  "(\<exists>inst. sqlmodel_init User 7
        [''username'' \<mapsto> VStr ''ann'', ''email'' \<mapsto> VStr ''ann@example.org'',
         ''full_name'' \<mapsto> VStr ''Ann'', ''password_hash'' \<mapsto> VStr ''h''] = Inr inst
      \<and> getattr inst ''role'' = Some (VEnum (UserRole_member OFFICIAL)))
   \<and> (\<exists>inst. sqlmodel_init User 7
        [''username'' \<mapsto> VStr ''ann'', ''email'' \<mapsto> VStr ''ann@example.org'',
         ''full_name'' \<mapsto> VStr ''Ann'', ''password_hash'' \<mapsto> VStr ''h''] = Inr inst
      \<and> getattr inst ''is_active'' = Some (VBool True))
   \<and> (\<exists>inst. sqlmodel_init User 7
        [''username'' \<mapsto> VStr ''ann'', ''email'' \<mapsto> VStr ''ann@example.org'',
         ''full_name'' \<mapsto> VStr ''Ann'', ''password_hash'' \<mapsto> VStr ''h'',
         ''role'' \<mapsto> VEnum (UserRole_member VIEWER)] = Inr inst
      \<and> getattr inst ''role'' = Some (VEnum (UserRole_member VIEWER)))
   \<and> (\<exists>inst. sqlmodel_init IBISWorldReport 7
        [''report_id'' \<mapsto> VStr ''r1'', ''title'' \<mapsto> VStr ''Retail'',
         ''report_type'' \<mapsto> VEnum (ReportType_member INDUSTRY)] = Inr inst
      \<and> getattr inst ''access_count'' = Some (VInt 0))
   \<and> (\<exists>inst. sqlmodel_init IBISWorldReport 7
        [''report_id'' \<mapsto> VStr ''r1'', ''title'' \<mapsto> VStr ''Retail'',
         ''report_type'' \<mapsto> VEnum (ReportType_member INDUSTRY)] = Inr inst
      \<and> getattr inst ''is_cached'' = Some (VBool False))"
proof -
  let ?u = "[''username'' \<mapsto> VStr ''ann'', ''email'' \<mapsto> VStr ''ann@example.org'',
         ''full_name'' \<mapsto> VStr ''Ann'', ''password_hash'' \<mapsto> VStr ''h'']"
  let ?v = "[''username'' \<mapsto> VStr ''ann'', ''email'' \<mapsto> VStr ''ann@example.org'',
         ''full_name'' \<mapsto> VStr ''Ann'', ''password_hash'' \<mapsto> VStr ''h'',
         ''role'' \<mapsto> VEnum (UserRole_member VIEWER)]"
  let ?r = "[''report_id'' \<mapsto> VStr ''r1'', ''title'' \<mapsto> VStr ''Retail'',
         ''report_type'' \<mapsto> VEnum (ReportType_member INDUSTRY)]"
  have all: "\<And>m n d kw now.
       (m, n, d) \<in> set [(User, ''role'', VEnum (UserRole_member OFFICIAL)),
                       (User, ''is_active'', VBool True),
                       (IBISWorldReport, ''access_count'', VInt 0),
                       (IBISWorldReport, ''is_cached'', VBool False)] \<Longrightarrow>
       (kw n = None \<longrightarrow>
          (\<exists>inst. sqlmodel_init m now kw = Inr inst \<and> getattr inst n = Some d)
          \<and> (\<forall>inst. model_validate m now kw = Inr inst \<longrightarrow> getattr inst n = Some d))
       \<and> (\<forall>v. kw n = Some v \<longrightarrow>
          (\<exists>inst. sqlmodel_init m now kw = Inr inst \<and> getattr inst n = Some v))"
    using defaults_applied_at_construction by blast
  have 1: "\<exists>inst. sqlmodel_init User 7 ?u = Inr inst
      \<and> getattr inst ''role'' = Some (VEnum (UserRole_member OFFICIAL))"
    using all[of User "''role''" "VEnum (UserRole_member OFFICIAL)" ?u 7] by simp
  have 2: "\<exists>inst. sqlmodel_init User 7 ?u = Inr inst
      \<and> getattr inst ''is_active'' = Some (VBool True)"
    using all[of User "''is_active''" "VBool True" ?u 7] by simp
  have 3: "\<exists>inst. sqlmodel_init User 7 ?v = Inr inst
      \<and> getattr inst ''role'' = Some (VEnum (UserRole_member VIEWER))"
    using all[of User "''role''" "VEnum (UserRole_member OFFICIAL)" ?v 7] by simp
  have 4: "\<exists>inst. sqlmodel_init IBISWorldReport 7 ?r = Inr inst
      \<and> getattr inst ''access_count'' = Some (VInt 0)"
    using all[of IBISWorldReport "''access_count''" "VInt 0" ?r 7] by simp
  have 5: "\<exists>inst. sqlmodel_init IBISWorldReport 7 ?r = Inr inst
      \<and> getattr inst ''is_cached'' = Some (VBool False)"
    using all[of IBISWorldReport "''is_cached''" "VBool False" ?r 7] by simp
  from 1 2 3 4 5 show ?thesis by blast
qed

subsection \<open>SearchResult and uniqueness\<close>





subsection \<open>IBISWorldReport.tags\<close>





subsection \<open>Enumeration fields\<close>











subsection \<open>Decimal fields\<close>

text \<open>
  \<^verbatim>\<open>Decimal("0.1234")\<close> has the digits 1, 2, 3, 4 and the exponent -4. Validation of
  \<^verbatim>\<open>SearchResult.relevance_score\<close> returns it unchanged, and refuses a fifth decimal
  place instead of rounding it away.
\<close>

lemma relevance_score_kept:
  "validate_field now (''relevance_score'', PyOptional PyDecimal,
       [Default VNone, Decimal_places 4, Max_digits 10])
     (Some (VDecimal False [1, 2, 3, 4] (- 4))) = Inr (VDecimal False [1, 2, 3, 4] (- 4))"
  by (simp add: validate_field_def check_decimal_def get_max_digits_def
      get_decimal_places_def Let_def)

lemma relevance_score_not_rounded:
  "validate_field now (''relevance_score'', PyOptional PyDecimal,
       [Default VNone, Decimal_places 4, Max_digits 10])
     (Some (VDecimal False [1, 2, 3, 4, 5] (- 5))) = Inl decimal_max_places"
  by (simp add: validate_field_def check_decimal_def get_max_digits_def
      get_decimal_places_def Let_def)

end
